theory Spec2Isabelle
  imports Main
begin

section \<open>Data model of \<^verbatim>\<open>src/context/ChatContext.tsx\<close>\<close>

text \<open>
  The module keeps one process-wide registry \<^verbatim>\<open>rooms\<close> (a \<^verbatim>\<open>Map\<close> from pairing code
  to a room) and, per mounted \<^verbatim>\<open>ChatProvider\<close>, six \<^verbatim>\<open>useState\<close> cells.  A provider
  instance is addressed by a natural number; the whole program state is a \<open>world\<close>.
  Each call of an operation is one step on the world, made on the state of the latest
  render; calls of different providers do not interleave at their \<^verbatim>\<open>await\<close>s.
\<close>

datatype msgtype = Text_type | Image_type | Audio_type

datatype sender = Self | Peer

text \<open>
  \<^verbatim>\<open>Message\<close> of \<^verbatim>\<open>../types\<close>.  \<open>content\<close> and \<open>msg_type\<close> are read from an argument
  of type \<^verbatim>\<open>any\<close> in the receive callback, so at run time they can be \<^verbatim>\<open>undefined\<close>
  (\<open>None\<close>).
\<close>

record Message =
  msg_id :: string
  content :: "string option"
  msg_type :: "msgtype option"
  timestamp :: int
  sender :: sender
  encrypted :: bool

text \<open>
  A function object created by evaluating the arrow function at lines 94--109: its
  identity (\<open>fn_id\<close>) and the provider instance whose \<^verbatim>\<open>setMessages\<close> it closes over.
\<close>

datatype callback = Callback (fn_id: nat) (owner: nat)

text \<open>
  The JavaScript values that reach the \<^verbatim>\<open>messageCallback\<close> cell, the parameter
  \<^verbatim>\<open>message: any\<close> of a callback, or an identity comparison: \<^verbatim>\<open>null\<close>, a callback, a
  Promise (by identity) and the object literal \<^verbatim>\<open>{ content, type }\<close>.
\<close>

datatype jsval = JNull | JFun callback | JPromise nat | JObject string msgtype

datatype error = Error string

record room =
  creator :: string
  listeners :: "callback list"

record session =
  userId :: string
  messages :: "Message list"
  isConnected :: bool
  isPaired :: bool
  pairingCode :: "string option"
  messageCallback :: jsval

text \<open>
  \<open>uuid_calls\<close> and \<open>clock_reads\<close> count the calls of \<^verbatim>\<open>uuidv4()\<close> and \<^verbatim>\<open>Date.now()\<close>
  made so far, \<open>objects\<close> the function and Promise objects allocated so far.
\<close>

record world =
  rooms :: "string \<rightharpoonup> room"
  sessions :: "nat \<Rightarrow> session"
  uuid_calls :: nat
  clock_reads :: nat
  objects :: nat

text \<open>
  What lies outside the module is a parameter: the \<open>n\<close>-th result of the \<^verbatim>\<open>uuid\<close>
  package's \<^verbatim>\<open>v4\<close> and of \<^verbatim>\<open>Date.now\<close>.  The Crypto Provider (\<^verbatim>\<open>./CryptoContext\<close>) is
  a parameter of each operation that awaits it: the outcome of the awaited call, \<open>Inl\<close>
  when it rejects.  \<^verbatim>\<open>crypto.reset()\<close> touches nothing of this module's state.
\<close>

record ext =
  uuidv4 :: "nat \<Rightarrow> string"
  Date_now :: "nat \<Rightarrow> int"

text \<open>The initial values of the \<^verbatim>\<open>useState\<close> cells (lines 34--39).\<close>

definition mount :: "string \<Rightarrow> session" where
  "mount uid = \<lparr>userId = uid, messages = [], isConnected = True, isPaired = False,
     pairingCode = None, messageCallback = JNull\<rparr>"

section \<open>JavaScript and React primitives the module relies on\<close>

text \<open>A \<^verbatim>\<open>Set\<close> iterates in insertion order and holds a value once.\<close>

definition set_add :: "callback \<Rightarrow> callback list \<Rightarrow> callback list" where
  "set_add f fs = (if f \<in> set fs then fs else fs @ [f])"

text \<open>\<^verbatim>\<open>Set.prototype.delete(v)\<close> removes the element identical to \<open>v\<close>, if there is one.\<close>

definition set_delete :: "jsval \<Rightarrow> callback list \<Rightarrow> callback list" where
  "set_delete v fs = filter (\<lambda>f. JFun f \<noteq> v) fs"

text \<open>Truthiness of \<^verbatim>\<open>pairingCode: string | null\<close>: \<^verbatim>\<open>null\<close> and \<^verbatim>\<open>''\<close> are falsy.\<close>

fun truthy_code :: "string option \<Rightarrow> bool" where
  "truthy_code None = False"
| "truthy_code (Some c) = (c \<noteq> [])"

text \<open>Truthiness of the \<^verbatim>\<open>messageCallback\<close> cell: only \<^verbatim>\<open>null\<close> is falsy.\<close>

fun truthy :: "jsval \<Rightarrow> bool" where
  "truthy JNull = False"
| "truthy _ = True"

text \<open>Reading \<^verbatim>\<open>.content\<close> and \<^verbatim>\<open>.type\<close> of a non-null value; a missing property is
  \<^verbatim>\<open>undefined\<close>.\<close>

fun get_content :: "jsval \<Rightarrow> string option" where
  "get_content (JObject c t) = Some c"
| "get_content _ = None"

fun get_type :: "jsval \<Rightarrow> msgtype option" where
  "get_type (JObject c t) = Some t"
| "get_type _ = None"

text \<open>\<^verbatim>\<open>setMessages(prev => [...prev, m])\<close> of provider instance \<open>a\<close>.\<close>

definition setMessages_append :: "nat \<Rightarrow> Message \<Rightarrow> world \<Rightarrow> world" where
  "setMessages_append a m w =
     w\<lparr>sessions := (sessions w)(a := (sessions w a)\<lparr>messages := messages (sessions w a) @ [m]\<rparr>)\<rparr>"

section \<open>The operations\<close>

text \<open>
  The receive callback (lines 94--109), called with \<open>message\<close>.  The object literal is
  evaluated in source order: \<^verbatim>\<open>uuidv4()\<close> first, then \<^verbatim>\<open>message.content\<close>, which throws
  a TypeError when \<open>message\<close> is \<^verbatim>\<open>null\<close>; the \<^verbatim>\<open>catch\<close> logs it and the call ends.  The
  function is \<^verbatim>\<open>async\<close> with no \<^verbatim>\<open>await\<close>: the body runs synchronously and the caller
  gets a Promise.
\<close>

fun callback_body :: "ext \<Rightarrow> callback \<Rightarrow> jsval \<Rightarrow> world \<Rightarrow> world" where
  "callback_body E cb JNull w = w\<lparr>uuid_calls := Suc (uuid_calls w)\<rparr>"
| "callback_body E cb message w =
     setMessages_append (owner cb)
       \<lparr>msg_id = uuidv4 E (uuid_calls w), content = get_content message,
        msg_type = get_type message, timestamp = Date_now E (clock_reads w),
        sender = Peer, encrypted = True\<rparr>
       (w\<lparr>uuid_calls := Suc (uuid_calls w), clock_reads := Suc (clock_reads w)\<rparr>)"

text \<open>
  The body shared by the effect's cleanup (lines 45--53) and \<^verbatim>\<open>leaveChat\<close> (lines
  154--162), on the values of \<^verbatim>\<open>pairingCode\<close> and \<^verbatim>\<open>messageCallback\<close> it closes over.
\<close>

definition cleanup :: "string option \<Rightarrow> jsval \<Rightarrow> (string \<rightharpoonup> room) \<Rightarrow> (string \<rightharpoonup> room)" where
  "cleanup pc mc rs =
     (case pc of
        None \<Rightarrow> rs
      | Some code \<Rightarrow>
          if code \<noteq> [] \<and> truthy mc then
            (case rs code of
               None \<Rightarrow> rs
             | Some r \<Rightarrow>
                 (let fs = set_delete mc (listeners r) in
                  if length fs = 0 then rs(code := None)
                  else rs(code \<mapsto> r\<lparr>listeners := fs\<rparr>)))
          else rs)"

text \<open>
  The effect of lines 43--55 has the dependencies \<^verbatim>\<open>[pairingCode, messageCallback]\<close>:
  when the render that follows a call finds one of them changed (\<^verbatim>\<open>Object.is\<close>), React
  runs the cleanup of the previous render, which closes over the previous values
  (\<open>old\<close>).  The state updates of one call are applied together in one render after the
  call (React batches them), so the cleanup sees the registry as the call left it.
\<close>

definition rerender :: "nat \<Rightarrow> session \<Rightarrow> world \<Rightarrow> world" where
  "rerender a old w =
     (if pairingCode (sessions w a) = pairingCode old \<and>
         messageCallback (sessions w a) = messageCallback old
      then w
      else w\<lparr>rooms := cleanup (pairingCode old) (messageCallback old) (rooms w)\<rparr>)"

text \<open>
  \<^verbatim>\<open>generateCode\<close> (lines 57--75).  \<open>keyPair\<close> and \<open>code\<close> are the outcomes of
  \<^verbatim>\<open>crypto.generateKeyPair()\<close> and \<^verbatim>\<open>crypto.generatePairingCode()\<close>; the \<^verbatim>\<open>catch\<close> logs and
  rethrows.  \<^verbatim>\<open>rooms.set\<close> replaces a room already registered under the code.
\<close>

definition generateCode ::
  "nat \<Rightarrow> error + unit \<Rightarrow> error + string \<Rightarrow> world \<Rightarrow> (error + string) \<times> world" where
  "generateCode a keyPair code w =
     (case keyPair of
        Inl e \<Rightarrow> (Inl e, w)
      | Inr _ \<Rightarrow>
          (case code of
             Inl e \<Rightarrow> (Inl e, w)
           | Inr c \<Rightarrow>
               (let s = sessions w a;
                    w1 = w\<lparr>rooms := (rooms w)(c \<mapsto> \<lparr>creator = userId s, listeners = []\<rparr>)\<rparr>;
                    w2 = w1\<lparr>sessions := (sessions w1)(a := s\<lparr>isPaired := True, pairingCode := Some c\<rparr>)\<rparr>
                in (Inr c, rerender a s w2))))"

text \<open>
  \<^verbatim>\<open>setMessageCallback(callback)\<close> (line 111).  The argument is a function, and a
  \<^verbatim>\<open>useState\<close> setter that is given a function takes it for an updater: React calls it
  with the pending state and stores what it returns (React's reference for \<^verbatim>\<open>useState\<close>:
  "If you pass a function as nextState, it will be treated as an updater function"; to
  store a function one has to write \<^verbatim>\<open>setFn(() => fn)\<close>).  So React calls
  \<^verbatim>\<open>callback(messageCallback)\<close>, which runs the body of the receive callback on the
  cell's present value, and the cell receives what this \<^verbatim>\<open>async\<close> function returns: a
  Promise, a fresh object.  The callback itself is never the value of the cell.
\<close>

definition setMessageCallback_fn :: "ext \<Rightarrow> nat \<Rightarrow> callback \<Rightarrow> world \<Rightarrow> world" where
  "setMessageCallback_fn E a cb w =
     (let w1 = callback_body E cb (messageCallback (sessions w a)) w;
          w2 = w1\<lparr>sessions := (sessions w1)(a := (sessions w1 a)\<lparr>messageCallback := JPromise (objects w1)\<rparr>)\<rparr>
      in w2\<lparr>objects := Suc (objects w2)\<rparr>)"

text \<open>
  \<^verbatim>\<open>joinChat\<close> (lines 77--119).  \<open>keyPair\<close> is the outcome of \<^verbatim>\<open>crypto.generateKeyPair()\<close>;
  the \<^verbatim>\<open>catch\<close> turns every exception of the body into the result \<^verbatim>\<open>false\<close>, so the
  returned Promise never rejects (the result is never \<open>Inl\<close>).
\<close>

definition joinChat ::
  "ext \<Rightarrow> nat \<Rightarrow> error + unit \<Rightarrow> string \<Rightarrow> world \<Rightarrow> (error + bool) \<times> world" where
  "joinChat E a keyPair code w =
     (let s = sessions w a in
      case rooms w code of
        None \<Rightarrow> (Inr False, w)
      | Some r \<Rightarrow>
          if creator r = userId s then (Inr False, w)
          else
            (case keyPair of
               Inl e \<Rightarrow> (Inr False, w)
             | Inr _ \<Rightarrow>
                 (let cb = Callback (objects w) a;
                      w1 = w\<lparr>objects := Suc (objects w)\<rparr>;
                      w2 = setMessageCallback_fn E a cb w1;
                      w3 = w2\<lparr>rooms := (rooms w2)(code \<mapsto> r\<lparr>listeners := set_add cb (listeners r)\<rparr>)\<rparr>;
                      w4 = w3\<lparr>sessions := (sessions w3)(a := (sessions w3 a)\<lparr>isPaired := True, pairingCode := Some code\<rparr>)\<rparr>
                  in (Inr True, rerender a s w4))))"

text \<open>
  \<^verbatim>\<open>sendMessage\<close> (lines 121--151).  \<^verbatim>\<open>forEach\<close> visits the listeners in insertion
  order and calls those that are not identical to the \<^verbatim>\<open>messageCallback\<close> of the render
  the call was made in.  Neither dependency of the effect changes, so no cleanup runs.
\<close>

definition sendMessage ::
  "ext \<Rightarrow> nat \<Rightarrow> string \<Rightarrow> msgtype \<Rightarrow> world \<Rightarrow> (error + unit) \<times> world" where
  "sendMessage E a text ty w =
     (let s = sessions w a in
      if \<not> isPaired s \<or> \<not> truthy_code (pairingCode s)
      then (Inl (Error ''Not connected or paired''), w)
      else
        (let message = \<lparr>msg_id = uuidv4 E (uuid_calls w), content = Some text,
                        msg_type = Some ty, timestamp = Date_now E (clock_reads w),
                        sender = Self, encrypted = True\<rparr>;
             w1 = setMessages_append a message
                    (w\<lparr>uuid_calls := Suc (uuid_calls w), clock_reads := Suc (clock_reads w)\<rparr>)
         in case pairingCode s of
              None \<Rightarrow> (Inr (), w1)
            | Some code \<Rightarrow>
                (case rooms w1 code of
                   None \<Rightarrow> (Inr (), w1)
                 | Some r \<Rightarrow>
                     (Inr (),
                      fold (\<lambda>listener. callback_body E listener (JObject text ty))
                        (filter (\<lambda>listener. JFun listener \<noteq> messageCallback s) (listeners r))
                        w1))))"

text \<open>\<^verbatim>\<open>leaveChat\<close> (lines 153--168), followed by the render it causes.\<close>

definition leaveChat :: "nat \<Rightarrow> world \<Rightarrow> world" where
  "leaveChat a w =
     (let s = sessions w a;
          w1 = w\<lparr>rooms := cleanup (pairingCode s) (messageCallback s) (rooms w)\<rparr>;
          w2 = w1\<lparr>sessions := (sessions w1)(a := s\<lparr>messages := [], isPaired := False,
                   pairingCode := None, messageCallback := JNull\<rparr>)\<rparr>
      in rerender a s w2)"

section \<open>Scenarios\<close>

text \<open>
  Awaiting \<^verbatim>\<open>sendMessage\<close> for each \<open>(content, type)\<close> of a list in turn, as a caller
  does; the first rejection ends the sequence.
\<close>

fun sendAll :: "ext \<Rightarrow> nat \<Rightarrow> (string \<times> msgtype) list \<Rightarrow> world \<Rightarrow> (error + unit) \<times> world" where
  "sendAll E a [] w = (Inr (), w)"
| "sendAll E a (m # ms) w =
     (case sendMessage E a (fst m) (snd m) w of
        (Inl e, w') \<Rightarrow> (Inl e, w')
      | (Inr u, w') \<Rightarrow> sendAll E a ms w')"

text \<open>What a log entry shows of a message: content, type, sender and the encrypted flag.\<close>

definition shown :: "Message \<Rightarrow> string option \<times> msgtype option \<times> sender \<times> bool" where
  "shown m = (content m, msg_type m, sender m, encrypted m)"

text \<open>
  A concrete environment and start: the \<open>n\<close>-th uuid is \<open>n + 1\<close> letters \<^verbatim>\<open>u\<close>, the clock
  counts its reads; the registry is empty and three providers are mounted, with the
  identities \<^verbatim>\<open>A\<close> (instance 0), \<^verbatim>\<open>B\<close> (instance 1) and \<^verbatim>\<open>D\<close> (every other instance).
\<close>

definition env0 :: ext where
  "env0 = \<lparr>uuidv4 = (\<lambda>n. replicate (Suc n) CHR ''u''), Date_now = (\<lambda>n. int n)\<rparr>"

definition world0 :: world where
  "world0 = \<lparr>rooms = Map.empty,
     sessions = (\<lambda>i. mount (if i = 0 then ''A'' else if i = 1 then ''B'' else ''D'')),
     uuid_calls = 0, clock_reads = 0, objects = 0\<rparr>"

text \<open>Instance 0 has generated the code \<^verbatim>\<open>ABC\<close>; then instance 1 has joined it.\<close>

definition hosted :: world where
  "hosted = snd (generateCode 0 (Inr ()) (Inr ''ABC'') world0)"

definition paired :: world where
  "paired = snd (joinChat env0 1 (Inr ()) ''ABC'' hosted)"

text \<open>From \<open>paired\<close>: the joiner (instance 1) sends one message.\<close>

definition reply :: "(error + unit) \<times> world" where
  "reply = sendMessage env0 1 ''yo'' Image_type paired"

text \<open>From \<open>paired\<close>: the joiner sends two messages in sequence.\<close>

definition two_sent :: "(error + unit) \<times> world" where
  "two_sent = sendAll env0 1 [(''x'', Text_type), (''y'', Text_type)] paired"

text \<open>From \<open>paired\<close>: the joiner, the room's only subscriber, leaves.\<close>

definition left :: world where
  "left = leaveChat 1 paired"

text \<open>From \<open>paired\<close>: a third provider (instance 2, identity \<^verbatim>\<open>D\<close>) joins the same code.\<close>

definition second_join :: "(error + bool) \<times> world" where
  "second_join = joinChat env0 2 (Inr ()) ''ABC'' paired"

text \<open>The host of \<open>hosted\<close>, still paired, after its room has gone from the registry.\<close>

definition orphaned :: world where
  "orphaned = hosted\<lparr>rooms := Map.empty\<rparr>"

text \<open>
  Session \<open>a\<close> is paired with code \<open>c\<close> and holds no callback, and the room of \<open>c\<close> has
  exactly one subscriber, the callback \<open>n\<close> of session \<open>b\<close>.
\<close>

definition linked :: "nat \<Rightarrow> nat \<Rightarrow> string \<Rightarrow> nat \<Rightarrow> world \<Rightarrow> bool" where
  "linked a b c n w \<longleftrightarrow>
     isPaired (sessions w a) \<and> pairingCode (sessions w a) = Some c \<and>
     messageCallback (sessions w a) = JNull \<and>
     (case rooms w c of None \<Rightarrow> False | Some r \<Rightarrow> listeners r = [Callback n b])"

section \<open>Basic facts\<close>

lemma cleanup_other: "pc \<noteq> Some c \<Longrightarrow> cleanup pc mc rs c = rs c"
  by (auto simp: cleanup_def Let_def split: option.splits)

lemma cleanup_falsy: "\<not> truthy mc \<Longrightarrow> cleanup pc mc rs = rs"
  by (simp add: cleanup_def split: option.splits)

lemma callback_body_rooms: "rooms (callback_body E cb v w) = rooms w"
  by (cases v) (simp_all add: setMessages_append_def)

lemma fold_callback_rooms: "rooms (fold (\<lambda>f. callback_body E f v) fs w) = rooms w"
  by (induction fs arbitrary: w) (simp_all add: callback_body_rooms)

text \<open>A delivery to any callback extends the log of a session by entries of sender \<open>Peer\<close> only.\<close>

lemma callback_body_log:
  "\<exists>rest. messages (sessions (callback_body E cb (JObject text ty) w) a) =
            messages (sessions w a) @ rest \<and> (\<forall>m \<in> set rest. sender m = Peer)"
  by (simp add: setMessages_append_def)

lemma fold_callback_log:
  "\<exists>rest. messages (sessions (fold (\<lambda>f. callback_body E f (JObject text ty)) fs w) a) =
            messages (sessions w a) @ rest \<and> (\<forall>m \<in> set rest. sender m = Peer)"
proof (induction fs arbitrary: w)
  case Nil
  then show ?case by simp
next
  case (Cons f fs)
  let ?w = "callback_body E f (JObject text ty) w"
  obtain r1 where r1: "messages (sessions ?w a) = messages (sessions w a) @ r1"
      "\<forall>m \<in> set r1. sender m = Peer"
    using callback_body_log by blast
  obtain r2 where r2:
      "messages (sessions (fold (\<lambda>f. callback_body E f (JObject text ty)) fs ?w) a) =
         messages (sessions ?w a) @ r2"
      "\<forall>m \<in> set r2. sender m = Peer"
    using Cons.IH by blast
  show ?case
    by (rule exI [of _ "r1 @ r2"]) (use r1 r2 in \<open>auto simp del: callback_body.simps\<close>)
qed

text \<open>The result of \<^verbatim>\<open>joinChat\<close>, read off its three tests.\<close>

lemma joinChat_result:
  "fst (joinChat E a keyPair code w) =
     Inr (case rooms w code of
            None \<Rightarrow> False
          | Some r \<Rightarrow> creator r \<noteq> userId (sessions w a) \<and> (\<exists>u. keyPair = Inr u))"
  by (simp add: joinChat_def Let_def split: option.splits sum.splits)

lemma generateCode_room:
  assumes "fst (generateCode a keyPair code w) = Inr c"
  shows "rooms (snd (generateCode a keyPair code w)) c =
           Some \<lparr>creator = userId (sessions w a), listeners = []\<rparr>"
    and "userId (sessions (snd (generateCode a keyPair code w)) a) = userId (sessions w a)"
  using assms
  by (auto simp: generateCode_def rerender_def Let_def cleanup_other split: sum.splits)

lemma leaveChat_userId: "userId (sessions (leaveChat a w) x) = userId (sessions w x)"
  by (simp add: leaveChat_def rerender_def Let_def)

lemma leaveChat_no_callback:
  "messageCallback (sessions w a) = JNull \<Longrightarrow> rooms (leaveChat a w) = rooms w"
  by (simp add: leaveChat_def rerender_def Let_def cleanup_falsy)

section \<open>The concrete scenario, evaluated\<close>

lemma hosted_eq:
  "hosted = \<lparr>rooms = [''ABC'' \<mapsto> \<lparr>creator = ''A'', listeners = []\<rparr>],
     sessions = (\<lambda>i. mount (if i = 0 then ''A'' else if i = 1 then ''B'' else ''D''))
       (0 := \<lparr>userId = ''A'', messages = [], isConnected = True, isPaired = True,
               pairingCode = Some ''ABC'', messageCallback = JNull\<rparr>),
     uuid_calls = 0, clock_reads = 0, objects = 0\<rparr>"
  by (simp add: hosted_def world0_def generateCode_def rerender_def cleanup_def mount_def)

lemma paired_eq:
  "paired = \<lparr>rooms = [''ABC'' \<mapsto> \<lparr>creator = ''A'', listeners = [Callback 0 1]\<rparr>],
     sessions = (\<lambda>i. mount (if i = 0 then ''A'' else if i = 1 then ''B'' else ''D''))
       (0 := \<lparr>userId = ''A'', messages = [], isConnected = True, isPaired = True,
               pairingCode = Some ''ABC'', messageCallback = JNull\<rparr>,
        1 := \<lparr>userId = ''B'', messages = [], isConnected = True, isPaired = True,
               pairingCode = Some ''ABC'', messageCallback = JPromise 1\<rparr>),
     uuid_calls = 1, clock_reads = 0, objects = 2\<rparr>"
  by (simp add: paired_def hosted_eq joinChat_def setMessageCallback_fn_def set_add_def
      rerender_def cleanup_def mount_def Let_def)

section \<open>Sending while unpaired\<close>

text \<open>
  Claim C5.  For every session that is not paired (\<open>isPaired\<close> is false, or \<open>pairingCode\<close>
  is absent or empty, which is what \<^verbatim>\<open>!pairingCode\<close> tests), \<^verbatim>\<open>sendMessage(content, type)\<close>
  fails with the error \<^verbatim>\<open>Not connected or paired\<close> and mutates no state: the whole world,
  and so the message log, is after the failed call what it was before.
\<close>

theorem sendMessage_unpaired:
  assumes "\<not> isPaired (sessions w a) \<or> \<not> truthy_code (pairingCode (sessions w a))"
  shows "sendMessage E a text ty w = (Inl (Error ''Not connected or paired''), w)"
  using assms by (auto simp: sendMessage_def)

theorem sendMessage_unpaired_witness:
  "\<not> isPaired (sessions world0 0) \<and> pairingCode (sessions world0 0) = None \<and>
   sendMessage env0 0 ''hi'' Text_type world0 = (Inl (Error ''Not connected or paired''), world0)"
proof -
  have h: "\<not> isPaired (sessions world0 0)" "pairingCode (sessions world0 0) = None"
    by (simp_all add: world0_def mount_def)
  then have "\<not> isPaired (sessions world0 0) \<or> \<not> truthy_code (pairingCode (sessions world0 0))"
    by simp
  from sendMessage_unpaired [OF this, of env0 "''hi''" Text_type] h show ?thesis
    by simp
qed

section \<open>Leaving twice\<close>

text \<open>
  Claim C9.  \<^verbatim>\<open>leaveChat\<close> is idempotent: for every session state, calling it twice in
  succession raises no error (the operation is total), and the second call has no further
  effect: the world, with the Room Registry, is after the second call what it was after
  the first, and the session's local state is the empty log, unpaired, no code and no
  callback.
\<close>

theorem leaveChat_idempotent:
  "leaveChat a (leaveChat a w) = leaveChat a w \<and>
   messages (sessions (leaveChat a w) a) = [] \<and>
   \<not> isPaired (sessions (leaveChat a w) a) \<and>
   pairingCode (sessions (leaveChat a w) a) = None \<and>
   messageCallback (sessions (leaveChat a w) a) = JNull"
  by (simp add: leaveChat_def rerender_def cleanup_def Let_def)

theorem leaveChat_idempotent_witness:
  "leaveChat 1 (leaveChat 1 paired) = leaveChat 1 paired \<and>
   messages (sessions (leaveChat 1 paired) 1) = [] \<and>
   \<not> isPaired (sessions (leaveChat 1 paired) 1) \<and>
   pairingCode (sessions (leaveChat 1 paired) 1) = None \<and>
   messageCallback (sessions (leaveChat 1 paired) 1) = JNull"
  using leaveChat_idempotent [of 1 paired] by simp

section \<open>Joining: the negative outcomes\<close>

text \<open>
  Claim C4.  For every session, after a successful \<^verbatim>\<open>generateCode()\<close> returning code \<open>c\<close>,
  a call of \<^verbatim>\<open>joinChat(c)\<close> by that same session returns \<^verbatim>\<open>false\<close> (and changes nothing),
  whatever its key pair generation would do: the room's creator is the caller.
\<close>

theorem joinChat_own_code:
  assumes "fst (generateCode a keyPair code w) = Inr c"
  shows "joinChat E a keyPair' c (snd (generateCode a keyPair code w)) =
           (Inr False, snd (generateCode a keyPair code w))"
  using generateCode_room [OF assms] by (simp add: joinChat_def)

theorem joinChat_own_code_witness:
  "fst (generateCode 0 (Inr ()) (Inr ''ABC'') world0) = Inr ''ABC'' \<and>
   joinChat env0 0 (Inr ()) ''ABC'' hosted = (Inr False, hosted)"
proof -
  have h: "fst (generateCode 0 (Inr ()) (Inr ''ABC'') world0) = Inr ''ABC''"
    by (simp add: generateCode_def Let_def)
  from joinChat_own_code [OF h, of env0 "Inr ()"] h show ?thesis
    by (simp add: hosted_def)
qed

text \<open>
  Claim C3, as the code has it.  When the Crypto Provider's \<^verbatim>\<open>generateKeyPair\<close> fails
  during \<^verbatim>\<open>joinChat\<close> on an existing room that the caller did not create, the \<^verbatim>\<open>catch\<close> of
  \<^verbatim>\<open>joinChat\<close> consumes the error: the call returns \<^verbatim>\<open>false\<close>, nothing is thrown to the
  caller, and no state changes, so a session that was unpaired remains unpaired.
\<close>

theorem joinChat_keyPair_failure:
  assumes "rooms w code = Some r" and "creator r \<noteq> userId (sessions w a)"
  shows "joinChat E a (Inl e) code w = (Inr False, w)"
  using assms by (simp add: joinChat_def)

theorem joinChat_keyPair_failure_witness:
  "rooms hosted ''ABC'' = Some \<lparr>creator = ''A'', listeners = []\<rparr> \<and>
   userId (sessions hosted 1) = ''B'' \<and>
   joinChat env0 1 (Inl (Error ''no key pair'')) ''ABC'' hosted = (Inr False, hosted)"
proof -
  have h: "rooms hosted ''ABC'' = Some \<lparr>creator = ''A'', listeners = []\<rparr>"
      "userId (sessions hosted 1) = ''B''"
    by (simp_all add: hosted_eq mount_def)
  from h have "creator \<lparr>creator = ''A'', listeners = []\<rparr> \<noteq> userId (sessions hosted 1)"
    by simp
  from joinChat_keyPair_failure [OF h(1) this, of env0 "Error ''no key pair''"] h
  show ?thesis by simp
qed

text \<open>
  Claim C3 as stated fails: on the room of \<open>hosted\<close>, which instance 1 did not create, a
  \<^verbatim>\<open>joinChat\<close> whose key pair generation rejects with an error returns the boolean
  \<^verbatim>\<open>false\<close>; the error is not the outcome of the call.
\<close>

theorem joinChat_keyPair_error_not_propagated:
  "fst (joinChat env0 1 (Inl (Error ''no key pair'')) ''ABC'' hosted) = Inr False \<and>
   fst (joinChat env0 1 (Inl (Error ''no key pair'')) ''ABC'' hosted) \<noteq> Inl (Error ''no key pair'')"
  by (simp add: joinChat_result hosted_eq)

section \<open>A creator that leaves before anyone has joined\<close>

text \<open>
  Claim C10.  The creator registers no subscriber callback: for a session that holds none,
  \<^verbatim>\<open>generateCode\<close> creates the room with an empty subscriber set and leaves the session's
  \<open>messageCallback\<close> absent.  Consequently, when the creator calls \<^verbatim>\<open>leaveChat\<close> before any
  peer has joined, the cleanup branch is skipped and the room remains in the registry: a
  later \<^verbatim>\<open>joinChat\<close> with that code by a session of another identity (its key pair
  generation succeeding) finds the room and returns \<^verbatim>\<open>true\<close>.
\<close>

theorem creator_leaves_room_behind:
  assumes "messageCallback (sessions w a) = JNull"
    and "userId (sessions w b) \<noteq> userId (sessions w a)"
    and "generateCode a (Inr ()) (Inr c) w = (res, w1)"
  shows "res = Inr c \<and>
         rooms w1 c = Some \<lparr>creator = userId (sessions w a), listeners = []\<rparr> \<and>
         messageCallback (sessions w1 a) = JNull \<and>
         rooms (leaveChat a w1) = rooms w1 \<and>
         fst (joinChat E b (Inr ()) c (leaveChat a w1)) = Inr True"
proof -
  have w1: "w1 = snd (generateCode a (Inr ()) (Inr c) w)"
    using assms(3) by simp
  have ok: "fst (generateCode a (Inr ()) (Inr c) w) = Inr c"
    by (simp add: generateCode_def Let_def)
  then have res: "res = Inr c"
    using assms(3) by simp
  have room: "rooms w1 c = Some \<lparr>creator = userId (sessions w a), listeners = []\<rparr>"
    unfolding w1 by (rule generateCode_room(1) [OF ok])
  have cb: "messageCallback (sessions w1 a) = JNull"
    using assms(1) by (simp add: w1 generateCode_def rerender_def Let_def)
  have uid: "userId (sessions w1 b) = userId (sessions w b)"
    by (simp add: w1 generateCode_def rerender_def Let_def)
  have left: "rooms (leaveChat a w1) = rooms w1"
    by (rule leaveChat_no_callback [OF cb])
  have "fst (joinChat E b (Inr ()) c (leaveChat a w1)) = Inr True"
    unfolding joinChat_result using assms(2) by (simp add: left room leaveChat_userId uid)
  then show ?thesis
    using res room cb left by simp
qed

theorem creator_leaves_room_behind_witness:
  "messageCallback (sessions world0 0) = JNull \<and>
   userId (sessions world0 1) = ''B'' \<and> userId (sessions world0 0) = ''A'' \<and>
   generateCode 0 (Inr ()) (Inr ''ABC'') world0 = (Inr ''ABC'', hosted) \<and>
   rooms hosted ''ABC'' = Some \<lparr>creator = ''A'', listeners = []\<rparr> \<and>
   messageCallback (sessions hosted 0) = JNull \<and>
   rooms (leaveChat 0 hosted) = rooms hosted \<and>
   fst (joinChat env0 1 (Inr ()) ''ABC'' (leaveChat 0 hosted)) = Inr True"
proof -
  have h: "messageCallback (sessions world0 0) = JNull"
      "userId (sessions world0 1) = ''B''" "userId (sessions world0 0) = ''A''"
    by (simp_all add: world0_def mount_def)
  then have d: "userId (sessions world0 1) \<noteq> userId (sessions world0 0)"
    by simp
  have g: "generateCode 0 (Inr ()) (Inr ''ABC'') world0 = (Inr ''ABC'', hosted)"
    by (simp add: hosted_def generateCode_def Let_def)
  from creator_leaves_room_behind [OF h(1) d g, of env0] h g show ?thesis
    by simp
qed

section \<open>Admission to a room\<close>

text \<open>
  Claim C2, as the code has it.  Admission is not limited to one joiner: \<^verbatim>\<open>joinChat\<close>
  never looks at the size of the subscriber set.  For every registered room, a
  \<^verbatim>\<open>joinChat\<close> with its code by a session that holds no callback, whose identity differs
  from the room's creator and whose key pair generation succeeds returns \<^verbatim>\<open>true\<close> and
  adds that session's new callback to the room's subscriber set, whatever the set holds
  already; the earlier subscribers stay.
\<close>

theorem joinChat_admits_further:
  assumes "rooms w code = Some r" and "creator r \<noteq> userId (sessions w d)"
    and "messageCallback (sessions w d) = JNull"
  shows "\<exists>w'. joinChat E d (Inr ()) code w = (Inr True, w') \<and>
           rooms w' code =
             Some (r\<lparr>listeners := set_add (Callback (objects w) d) (listeners r)\<rparr>)"
  using assms
  by (simp add: joinChat_def Let_def setMessageCallback_fn_def rerender_def cleanup_falsy)

theorem joinChat_admits_further_witness:
  "rooms paired ''ABC'' = Some \<lparr>creator = ''A'', listeners = [Callback 0 1]\<rparr> \<and>
   userId (sessions paired 2) = ''D'' \<and> messageCallback (sessions paired 2) = JNull \<and>
   (\<exists>w'. joinChat env0 2 (Inr ()) ''ABC'' paired = (Inr True, w') \<and>
      rooms w' ''ABC'' = Some \<lparr>creator = ''A'', listeners = [Callback 0 1, Callback 2 2]\<rparr>)"
proof -
  have h: "rooms paired ''ABC'' = Some \<lparr>creator = ''A'', listeners = [Callback 0 1]\<rparr>"
      "userId (sessions paired 2) = ''D''" "messageCallback (sessions paired 2) = JNull"
    by (simp_all add: paired_eq mount_def)
  from h have d: "creator \<lparr>creator = ''A'', listeners = [Callback 0 1]\<rparr> \<noteq> userId (sessions paired 2)"
    by simp
  have o: "objects paired = 2"
    by (simp add: paired_eq)
  from joinChat_admits_further [OF h(1) d h(3), of env0] h o show ?thesis
    by (simp add: set_add_def)
qed

text \<open>
  Claim C2 as stated fails: after instance 1 has joined the room \<^verbatim>\<open>ABC\<close>, the
  \<^verbatim>\<open>joinChat\<close> of a third, distinct session with the same code returns \<^verbatim>\<open>true\<close>, and the
  room's subscriber set then holds the callbacks of two joiners.
\<close>

theorem second_joiner_admitted:
  "fst second_join = Inr True \<and>
   rooms (snd second_join) ''ABC'' =
     Some \<lparr>creator = ''A'', listeners = [Callback 0 1, Callback 2 2]\<rparr>"
  by (simp add: second_join_def paired_eq joinChat_def Let_def setMessageCallback_fn_def
      rerender_def cleanup_falsy set_add_def mount_def)

section \<open>The local echo of a send\<close>

text \<open>
  Claim C7.  For every paired session (\<open>isPaired\<close>, with a non-empty \<open>pairingCode\<close>),
  \<^verbatim>\<open>sendMessage(content, type)\<close> succeeds and appends to the sender's own log exactly one
  message with sender \<open>Self\<close>: it has \<open>encrypted = True\<close> and the given content and type,
  and it comes first; whatever else the call appends to that log has sender \<open>Peer\<close>.
  This holds whatever the registry and the room's subscriber set are.  The registry is not
  changed.  If the room of the session's code is absent, the call still succeeds with the
  local append alone, and no delivery occurs: no other session's state changes.
\<close>

theorem sendMessage_local_echo:
  assumes "isPaired (sessions w a)" and "pairingCode (sessions w a) = Some code"
    and "code \<noteq> []"
  shows "\<exists>w' rest. sendMessage E a text ty w = (Inr (), w') \<and>
           messages (sessions w' a) =
             messages (sessions w a) @
             \<lparr>msg_id = uuidv4 E (uuid_calls w), content = Some text, msg_type = Some ty,
              timestamp = Date_now E (clock_reads w), sender = Self, encrypted = True\<rparr> # rest \<and>
           (\<forall>m \<in> set rest. sender m = Peer) \<and>
           rooms w' = rooms w \<and>
           (rooms w code = None \<longrightarrow>
              rest = [] \<and> (\<forall>b. b \<noteq> a \<longrightarrow> sessions w' b = sessions w b))"
proof (cases "rooms w code")
  case None
  then show ?thesis
    using assms by (simp add: sendMessage_def Let_def setMessages_append_def)
next
  case (Some r)
  let ?m = "\<lparr>msg_id = uuidv4 E (uuid_calls w), content = Some text, msg_type = Some ty,
              timestamp = Date_now E (clock_reads w), sender = Self, encrypted = True\<rparr>"
  let ?w1 = "setMessages_append a ?m
               (w\<lparr>uuid_calls := Suc (uuid_calls w), clock_reads := Suc (clock_reads w)\<rparr>)"
  let ?fs = "filter (\<lambda>listener. JFun listener \<noteq> messageCallback (sessions w a)) (listeners r)"
  let ?w' = "fold (\<lambda>listener. callback_body E listener (JObject text ty)) ?fs ?w1"
  have res: "sendMessage E a text ty w = (Inr (), ?w')"
    using assms Some
    by (simp add: sendMessage_def Let_def setMessages_append_def del: callback_body.simps)
  obtain rest where rest: "messages (sessions ?w' a) = messages (sessions ?w1 a) @ rest"
      "\<forall>m \<in> set rest. sender m = Peer"
    using fold_callback_log by blast
  have w1: "messages (sessions ?w1 a) = messages (sessions w a) @ [?m]"
    by (simp add: setMessages_append_def)
  have rooms: "rooms ?w' = rooms w"
    by (simp add: fold_callback_rooms setMessages_append_def del: callback_body.simps)
  show ?thesis
    using res rest w1 rooms Some by (auto simp del: callback_body.simps)
qed

theorem sendMessage_local_echo_witness:
  "isPaired (sessions hosted 0) \<and> pairingCode (sessions hosted 0) = Some ''ABC'' \<and>
   (\<exists>w' rest. sendMessage env0 0 ''hi'' Text_type hosted = (Inr (), w') \<and>
      messages (sessions w' 0) =
        \<lparr>msg_id = ''u'', content = Some ''hi'', msg_type = Some Text_type, timestamp = 0,
         sender = Self, encrypted = True\<rparr> # rest \<and>
      list_all (\<lambda>m. sender m = Peer) rest \<and> rooms w' = rooms hosted) \<and>
   isPaired (sessions orphaned 0) \<and> pairingCode (sessions orphaned 0) = Some ''ABC'' \<and>
   rooms orphaned ''ABC'' = None \<and>
   (\<exists>w'. sendMessage env0 0 ''hi'' Text_type orphaned = (Inr (), w') \<and>
      messages (sessions w' 0) =
        [\<lparr>msg_id = ''u'', content = Some ''hi'', msg_type = Some Text_type, timestamp = 0,
          sender = Self, encrypted = True\<rparr>] \<and>
      sessions w' 1 = sessions orphaned 1 \<and> sessions w' 2 = sessions orphaned 2)"
proof -
  have h: "isPaired (sessions hosted 0)" "pairingCode (sessions hosted 0) = Some ''ABC''"
      "messages (sessions hosted 0) = []" "uuid_calls hosted = 0" "clock_reads hosted = 0"
    by (simp_all add: hosted_eq)
  have o: "isPaired (sessions orphaned 0)" "pairingCode (sessions orphaned 0) = Some ''ABC''"
      "messages (sessions orphaned 0) = []" "uuid_calls orphaned = 0" "clock_reads orphaned = 0"
      "rooms orphaned ''ABC'' = None"
    by (simp_all add: orphaned_def hosted_eq)
  have ne: "''ABC'' \<noteq> []" by simp
  have e: "uuidv4 env0 0 = ''u''" "Date_now env0 0 = 0"
    by (simp_all add: env0_def)
  from sendMessage_local_echo [OF h(1,2) ne, of env0 "''hi''" Text_type]
  have 1: "\<exists>w' rest. sendMessage env0 0 ''hi'' Text_type hosted = (Inr (), w') \<and>
      messages (sessions w' 0) =
        \<lparr>msg_id = ''u'', content = Some ''hi'', msg_type = Some Text_type, timestamp = 0,
         sender = Self, encrypted = True\<rparr> # rest \<and>
      list_all (\<lambda>m. sender m = Peer) rest \<and> rooms w' = rooms hosted"
    unfolding h(3,4,5) e list_all_iff by auto
  from sendMessage_local_echo [OF o(1,2) ne, of env0 "''hi''" Text_type]
  have 2: "\<exists>w'. sendMessage env0 0 ''hi'' Text_type orphaned = (Inr (), w') \<and>
      messages (sessions w' 0) =
        [\<lparr>msg_id = ''u'', content = Some ''hi'', msg_type = Some Text_type, timestamp = 0,
          sender = Self, encrypted = True\<rparr>] \<and>
      sessions w' 1 = sessions orphaned 1 \<and> sessions w' 2 = sessions orphaned 2"
    unfolding o(3,4,5) e using o(6) by auto
  from 1 2 h(1,2) o(1,2,6) show ?thesis
    by blast
qed

section \<open>Delivery between the two sessions of a room\<close>

text \<open>
  From the creator to the joiner delivery works.  A send by a session \<open>a\<close> that is
  \<open>linked\<close> to the callback of \<open>b\<close> appends one entry to the log of \<open>b\<close>, with sender
  \<open>Peer\<close> and the content and type sent, and keeps the two linked.
\<close>

lemma sendMessage_delivers:
  assumes "linked a b c n w" and "a \<noteq> b" and "c \<noteq> []"
  shows "\<exists>w' m. sendMessage E a text ty w = (Inr (), w') \<and> linked a b c n w' \<and>
           messages (sessions w' b) = messages (sessions w b) @ [m] \<and>
           shown m = (Some text, Some ty, Peer, True)"
  using assms
  by (auto simp: linked_def sendMessage_def Let_def setMessages_append_def shown_def
      split: option.splits)

lemma sendAll_delivers:
  assumes "linked a b c n w" and "a \<noteq> b" and "c \<noteq> []"
  shows "\<exists>w' new. sendAll E a ms w = (Inr (), w') \<and>
           messages (sessions w' b) = messages (sessions w b) @ new \<and>
           map shown new = map (\<lambda>m. (Some (fst m), Some (snd m), Peer, True)) ms"
  using assms(1)
proof (induction ms arbitrary: w)
  case Nil
  then show ?case by simp
next
  case (Cons m ms)
  obtain w1 p where s1: "sendMessage E a (fst m) (snd m) w = (Inr (), w1)"
      "linked a b c n w1" "messages (sessions w1 b) = messages (sessions w b) @ [p]"
      "shown p = (Some (fst m), Some (snd m), Peer, True)"
    using sendMessage_delivers [OF Cons.prems assms(2,3)] by blast
  obtain w' new where s2: "sendAll E a ms w1 = (Inr (), w')"
      "messages (sessions w' b) = messages (sessions w1 b) @ new"
      "map shown new = map (\<lambda>m. (Some (fst m), Some (snd m), Peer, True)) ms"
    using Cons.IH [OF s1(2)] by blast
  show ?case
    by (rule exI [of _ w'], rule exI [of _ "p # new"]) (simp add: s1 s2)
qed

text \<open>
  Two sessions of distinct identities that hold no callback: after \<open>a\<close> has generated
  the code \<open>c\<close>, the \<^verbatim>\<open>joinChat(c)\<close> of \<open>b\<close> returns \<^verbatim>\<open>true\<close> and links \<open>a\<close> to the
  callback of \<open>b\<close>, so every message \<open>a\<close> then sends arrives in the log of \<open>b\<close>.
\<close>

lemma pairing_links:
  assumes "userId (sessions w a) \<noteq> userId (sessions w b)"
    and "messageCallback (sessions w a) = JNull"
    and "messageCallback (sessions w b) = JNull"
  shows "\<exists>w2. joinChat E b (Inr ()) c (snd (generateCode a (Inr ()) (Inr c) w)) = (Inr True, w2) \<and>
           linked a b c (objects w) w2"
proof -
  have "a \<noteq> b"
    using assms(1) by auto
  with assms show ?thesis
    by (simp add: generateCode_def joinChat_def Let_def rerender_def cleanup_falsy
        setMessageCallback_fn_def set_add_def linked_def)
qed

lemma creator_messages_reach_joiner:
  assumes "userId (sessions w a) \<noteq> userId (sessions w b)"
    and "messageCallback (sessions w a) = JNull"
    and "messageCallback (sessions w b) = JNull"
    and "c \<noteq> []"
  shows "\<exists>w2 w3 new.
           joinChat E b (Inr ()) c (snd (generateCode a (Inr ()) (Inr c) w)) = (Inr True, w2) \<and>
           sendAll E a ms w2 = (Inr (), w3) \<and>
           messages (sessions w3 b) = messages (sessions w2 b) @ new \<and>
           map shown new = map (\<lambda>m. (Some (fst m), Some (snd m), Peer, True)) ms"
proof -
  have ab: "a \<noteq> b"
    using assms(1) by auto
  obtain w2 where w2:
      "joinChat E b (Inr ()) c (snd (generateCode a (Inr ()) (Inr c) w)) = (Inr True, w2)"
      "linked a b c (objects w) w2"
    using pairing_links [OF assms(1,2,3)] by blast
  from sendAll_delivers [OF w2(2) ab assms(4)] w2(1) show ?thesis
    by blast
qed

text \<open>
  Claim C1 at a concrete input.  In \<open>paired\<close> (instance 0 has generated \<^verbatim>\<open>ABC\<close>, instance
  1 has joined it with the result \<^verbatim>\<open>true\<close>), the joiner sends \<^verbatim>\<open>yo\<close> of type image.  The
  call succeeds; the creator, which \<^verbatim>\<open>generateCode\<close> never subscribed to its room, receives
  nothing: its log stays empty.
\<close>

theorem joiner_message_not_delivered:
  "isPaired (sessions paired 0) \<and> isPaired (sessions paired 1) \<and>
   fst reply = Inr () \<and> messages (sessions (snd reply) 0) = []"
  by (simp add: reply_def paired_eq sendMessage_def Let_def setMessages_append_def shown_def
      env0_def mount_def)

section \<open>The stored callback: leaving and self-exclusion\<close>

text \<open>
  A successful \<^verbatim>\<open>joinChat\<close> leaves a Promise in the \<open>messageCallback\<close> cell, and a
  \<^verbatim>\<open>leaveChat\<close> of a session whose cell holds a Promise unsubscribes nothing: a room that
  has a subscriber keeps all its subscribers and stays registered.
\<close>

lemma callback_body_objects: "objects (callback_body E cb v w) = objects w"
  by (cases v) (simp_all add: setMessages_append_def)

lemma joinChat_stores_promise:
  assumes "joinChat E a keyPair code w = (Inr True, w')"
  shows "messageCallback (sessions w' a) = JPromise (Suc (objects w))"
  using assms
  by (auto simp: joinChat_def Let_def setMessageCallback_fn_def rerender_def
      callback_body_objects split: option.splits sum.splits if_splits
      simp del: callback_body.simps)

lemma set_delete_promise: "set_delete (JPromise n) fs = fs"
  by (simp add: set_delete_def)

lemma leaveChat_keeps_subscribers:
  assumes "messageCallback (sessions w a) = JPromise n"
    and "rooms w c = Some r" and "listeners r \<noteq> []"
  shows "rooms (leaveChat a w) c = Some r"
  using assms
  by (auto simp: leaveChat_def rerender_def cleanup_def set_delete_promise Let_def
      split: option.splits)

text \<open>
  Claim C6 at a concrete input.  In \<open>paired\<close> the joiner (instance 1) is the only
  subscriber of the room \<^verbatim>\<open>ABC\<close>.  It calls \<^verbatim>\<open>leaveChat\<close>: its \<open>messageCallback\<close> cell holds
  a Promise, not the subscribed callback, so \<^verbatim>\<open>room.listeners.delete(messageCallback)\<close>
  removes nothing; the callback stays subscribed, the room stays registered, and a
  \<^verbatim>\<open>joinChat\<close> with the same code by a third session returns \<^verbatim>\<open>true\<close>.
\<close>

theorem room_survives_sole_subscriber_leaving:
  "messageCallback (sessions paired 1) = JPromise 1 \<and>
   rooms paired ''ABC'' = Some \<lparr>creator = ''A'', listeners = [Callback 0 1]\<rparr> \<and>
   rooms left ''ABC'' = Some \<lparr>creator = ''A'', listeners = [Callback 0 1]\<rparr> \<and>
   fst (joinChat env0 2 (Inr ()) ''ABC'' left) = Inr True"
  by (simp add: left_def paired_eq leaveChat_def rerender_def cleanup_def set_delete_def
      Let_def joinChat_result mount_def)

text \<open>
  Claim C8 at a concrete input.  In \<open>paired\<close> the joiner (instance 1, empty log) sends two
  messages in sequence.  Both sends succeed and its log then has four entries, not two:
  the test \<^verbatim>\<open>listener !== messageCallback\<close> compares the session's own callback with the
  Promise in its \<open>messageCallback\<close> cell, so each send is also delivered to the sender as
  a peer's message.
\<close>

theorem two_sends_four_entries:
  "fst two_sent = Inr () \<and>
   map shown (messages (sessions (snd two_sent) 1)) =
     [(Some ''x'', Some Text_type, Self, True), (Some ''x'', Some Text_type, Peer, True),
      (Some ''y'', Some Text_type, Self, True), (Some ''y'', Some Text_type, Peer, True)]"
  by (simp add: two_sent_def paired_eq sendMessage_def Let_def setMessages_append_def shown_def
      env0_def mount_def)

end
